theory Spec2Isabelle
  imports Main "HOL-Library.Word"
begin

section \<open>Package signer: tokens sealed with an AEAD cipher\<close>

text \<open>
  The embedding follows \<^verbatim>\<open>signer.go\<close>. A byte slice is a list of 8-bit words, and a
  slice that may be \<^verbatim>\<open>nil\<close> is an option of such a list. The two collaborators the
  package imports, the cipher of \<^verbatim>\<open>chacha20poly1305\<close> and the reader of
  \<^verbatim>\<open>crypto/rand\<close>, are not part of the package: they are parameters of the model.
\<close>

subsection \<open>Constants and errors\<close>

type_synonym byte = "8 word"
type_synonym bytes = "byte list"

definition Version :: byte where
  "Version = 0x41"

definition NonceSize :: nat where
  "NonceSize = 24"

definition hdrSize :: nat where
  "hdrSize = 1 + NonceSize"

text \<open>
  Modelled from the spec: the key size and the tag size of the cipher, which the source
  only reaches through \<^verbatim>\<open>chacha20poly1305.NewX\<close> and \<^verbatim>\<open>cipher.AEAD\<close>
  (``fixed key size 32 bytes, fixed nonce size 24 bytes, fixed tag size 16 bytes'').
\<close>

definition KeySize :: nat where
  "KeySize = 32"

definition Overhead :: nat where
  "Overhead = 16"

text \<open>
  Modelled from the spec: the type \<^verbatim>\<open>Token\<close>, which \<^verbatim>\<open>signer.go\<close> uses as a byte
  slice and declares elsewhere (``an opaque byte sequence'').
\<close>

type_synonym Token = bytes

text \<open>
  The package declares two error values. An error value made by another package (the
  cipher, the random reader) is never identical to one of them; it is kept with its
  message.
\<close>

datatype error = ErrKeyLen | ErrShort | Foreign string

text \<open>
  What a call does: it panics, it returns an error, or it returns a value.
\<close>

datatype ('e, 'a) outcome = Panic | Fails 'e | Returns 'a

subsection \<open>The collaborators\<close>

text \<open>
  The interface \<^verbatim>\<open>cipher.AEAD\<close>, as far as the package calls it, always with a
  \<^verbatim>\<open>nil\<close> destination: \<open>Seal nonce plaintext additionalData\<close> and
  \<open>Open nonce ciphertext additionalData\<close>. \<open>Seal\<close> has no error result; \<open>None\<close> stands
  for a call that panics.
\<close>

record AEAD =
  Seal :: "bytes \<Rightarrow> bytes \<Rightarrow> bytes \<Rightarrow> bytes option"
  Open :: "bytes \<Rightarrow> bytes \<Rightarrow> bytes \<Rightarrow> (string, bytes) outcome"

text \<open>
  \<^verbatim>\<open>chacha20poly1305.NewX\<close> maps a key to a cipher or to an error, and
  \<^verbatim>\<open>rand.Read\<close> is given by what it leaves in a zeroed buffer of the requested
  length together with its error result.
\<close>

type_synonym newx = "bytes \<Rightarrow> (string, AEAD) outcome"
type_synonym reader = "nat \<Rightarrow> bytes \<times> string option"

subsection \<open>The Signer\<close>

record Signer =
  aead :: AEAD
  n :: nat
  p :: bytes

definition New :: "newx \<Rightarrow> bytes \<Rightarrow> (error, Signer) outcome" where
  "New NewX key =
     (case NewX key of
        Panic \<Rightarrow> Panic
      | Fails err \<Rightarrow> Fails (Foreign err)
      | Returns a \<Rightarrow> Returns \<lparr>aead = a, n = 0, p = replicate hdrSize 0\<rparr>)"

text \<open>
  The builtin \<^verbatim>\<open>copy(dst, src)\<close> writes the first \<open>min (len dst) (len src)\<close> bytes
  of \<open>src\<close> over \<open>dst\<close> and returns their number.
\<close>

definition go_copy :: "bytes \<Rightarrow> bytes \<Rightarrow> bytes \<times> nat" where
  "go_copy dst src =
     (let k = min (length dst) (length src) in (take k src @ drop k dst, k))"

text \<open>
  \<^verbatim>\<open>put\<close> has a pointer receiver: it returns the Signer it points to, updated.
\<close>

definition put :: "Signer \<Rightarrow> bytes \<Rightarrow> Signer" where
  "put s q =
     (case go_copy (drop (n s) (p s)) q of
        (d, k) \<Rightarrow> s\<lparr>p := take (n s) (p s) @ d, n := n s + k\<rparr>)"

text \<open>
  \<^verbatim>\<open>sign\<close> has a value receiver: \<open>s\<close> is the callee's own copy of the Signer, both
  calls of \<^verbatim>\<open>put\<close> update that copy, and only the token leaves the call.
\<close>

definition sign :: "Signer \<Rightarrow> bytes \<Rightarrow> bytes \<Rightarrow> bytes option" where
  "sign s msg nonce =
     (let s1 = put s [Version];
          s2 = put s1 nonce;
          hdr = take (n s2) (p s2)
      in case Seal (aead s2) nonce msg hdr of
           None \<Rightarrow> None
         | Some sealed \<Rightarrow> Some (hdr @ sealed))"

definition mknonce :: "reader \<Rightarrow> bytes \<times> string option" where
  "mknonce Read =
     (case Read NonceSize of
        (q, err) \<Rightarrow> (take NonceSize (q @ replicate NonceSize 0), err))"

text \<open>
  \<^verbatim>\<open>Sign\<close> and \<^verbatim>\<open>Verify\<close> have pointer receivers: each returns its result
  together with the Signer it points to as the call leaves it.
\<close>

definition Sign :: "reader \<Rightarrow> Signer \<Rightarrow> bytes \<Rightarrow> bytes option \<Rightarrow> (error, Token) outcome \<times> Signer" where
  "Sign Read s msg nonce =
     (case (case nonce of
              None \<Rightarrow> mknonce Read
            | Some q \<Rightarrow> (q, None)) of
        (q, Some err) \<Rightarrow> (Fails (Foreign err), s)
      | (q, None) \<Rightarrow>
          (case sign s msg q of
             None \<Rightarrow> (Panic, s)
           | Some t \<Rightarrow> (Returns t, s)))"

definition Verify :: "Signer \<Rightarrow> Token \<Rightarrow> (error, bytes) outcome \<times> Signer" where
  "Verify s c =
     (if length c < hdrSize then (Fails ErrShort, s)
      else
        let k = hdrSize;
            ae = drop k c;
            ad = take k c;
            nonce = drop 1 ad
        in case Open (aead s) nonce ae ad of
             Panic \<Rightarrow> (Panic, s)
           | Fails err \<Rightarrow> (Fails (Foreign err), s)
           | Returns msg \<Rightarrow> (Returns msg, s))"

subsection \<open>What the package relies on\<close>

text \<open>
  Modelled from the spec: the contract of the cipher, whose code is in
  \<^verbatim>\<open>golang.org/x/crypto/chacha20poly1305\<close> and not in the package (``exposes
  Seal(nonce, plaintext, associatedData) -> ciphertext||tag and Open(nonce,
  ciphertext||tag, associatedData) -> plaintext or AuthFailure; fixed key size 32 bytes,
  fixed nonce size 24 bytes, fixed tag size 16 bytes''). For a nonce of 24 bytes, \<open>Seal\<close>
  returns the plaintext's length plus 16 bytes, \<open>Open\<close> gives the plaintext back from them
  under the same nonce and associated data, and \<open>Open\<close> reports a failure for an input too
  short to hold a tag. Nothing is assumed on how hard a tag is to forge.
\<close>

definition aead_contract :: "AEAD \<Rightarrow> bool" where
  "aead_contract a =
     (\<forall>nonce msg ad c. length nonce = NonceSize \<longrightarrow>
        (\<exists>sealed. Seal a nonce msg ad = Some sealed \<and>
                  length sealed = length msg + Overhead \<and>
                  Open a nonce sealed ad = Returns msg) \<and>
        (length c < Overhead \<longrightarrow> (\<exists>err. Open a nonce c ad = Fails err)))"

text \<open>
  Modelled from the spec: the constructor \<^verbatim>\<open>chacha20poly1305.NewX\<close> returns such a
  cipher for a key of 32 bytes and an error for any other key.
\<close>

definition NewX_contract :: "newx \<Rightarrow> bool" where
  "NewX_contract NewX =
     (\<forall>key. if length key = KeySize
            then (\<exists>a. NewX key = Returns a \<and> aead_contract a)
            else (\<exists>err. NewX key = Fails err))"

subsection \<open>A deterministic stand-in for the cipher\<close>

text \<open>
  The contract is satisfiable: the functions below meet it. They stand in for the cipher
  where a property is instantiated at concrete bytes; they are not the XChaCha20-Poly1305
  construction and offer no security. The plaintext is shifted bytewise by a value
  computed from key and nonce, and the tag repeats a checksum 16 times.
\<close>

definition fake_pad :: "bytes \<Rightarrow> bytes \<Rightarrow> byte" where
  "fake_pad key nonce = sum_list (key @ nonce)"

definition fake_tag :: "bytes \<Rightarrow> bytes \<Rightarrow> bytes \<Rightarrow> bytes \<Rightarrow> bytes" where
  "fake_tag key nonce ct ad = replicate Overhead (sum_list (key @ nonce @ ct @ ad))"

definition fake_Seal :: "bytes \<Rightarrow> bytes \<Rightarrow> bytes \<Rightarrow> bytes \<Rightarrow> bytes option" where
  "fake_Seal key nonce msg ad =
     (if length nonce \<noteq> NonceSize then None
      else let ct = map (\<lambda>b. b + fake_pad key nonce) msg
           in Some (ct @ fake_tag key nonce ct ad))"

definition fake_Open :: "bytes \<Rightarrow> bytes \<Rightarrow> bytes \<Rightarrow> bytes \<Rightarrow> (string, bytes) outcome" where
  "fake_Open key nonce c ad =
     (if length nonce \<noteq> NonceSize then Panic
      else if length c < Overhead then Fails ''fake: message authentication failed''
      else let ct = take (length c - Overhead) c;
               tag = drop (length c - Overhead) c
           in if tag = fake_tag key nonce ct ad
              then Returns (map (\<lambda>b. b - fake_pad key nonce) ct)
              else Fails ''fake: message authentication failed'')"

definition fake_NewX :: newx where
  "fake_NewX key =
     (if length key \<noteq> KeySize then Fails ''fake: bad key length''
      else Returns \<lparr>Seal = fake_Seal key, Open = fake_Open key\<rparr>)"

definition fake_Read :: reader where
  "fake_Read k = (replicate k 7, None)"

section \<open>Properties\<close>

subsection \<open>Sizes, the stand-in, and the two paths through the package\<close>

lemma hdrSize_25: "hdrSize = 25"
  by (simp add: hdrSize_def NonceSize_def)

lemma fake_aead_contract: "aead_contract \<lparr>Seal = fake_Seal key, Open = fake_Open key\<rparr>"
  by (simp add: aead_contract_def fake_Seal_def fake_Open_def fake_tag_def Let_def
      Overhead_def comp_def)

lemma fake_NewX_contract: "NewX_contract fake_NewX"
  by (simp add: NewX_contract_def fake_NewX_def fake_aead_contract)

text \<open>
  Under the contract, \<^verbatim>\<open>New\<close> returns a Signer with an empty scratch buffer for a key
  of 32 bytes.
\<close>

lemma New_Returns:
  assumes "NewX_contract NewX" and "length key = KeySize"
  obtains a where "New NewX key = Returns \<lparr>aead = a, n = 0, p = replicate hdrSize 0\<rparr>"
    and "aead_contract a"
proof -
  from assms obtain a where "NewX key = Returns a" and "aead_contract a"
    unfolding NewX_contract_def by metis
  then show thesis
    by (intro that [of a]) (simp_all add: New_def)
qed

text \<open>
  \<^verbatim>\<open>put\<close> keeps the length of the buffer and keeps \<open>n\<close> within it, so the slice
  expressions \<^verbatim>\<open>s.p[s.n:]\<close> and \<^verbatim>\<open>s.p[:s.n]\<close> are always in range.
\<close>

lemma put_in_range:
  assumes "n s \<le> length (p s)"
  shows "length (p (put s q)) = length (p s) \<and> n (put s q) \<le> length (p s)"
  using assms by (auto simp: put_def go_copy_def Let_def min_def)

text \<open>
  In \<^verbatim>\<open>sign\<close>, the two calls of \<^verbatim>\<open>put\<close> on the callee's copy of a fresh Signer
  leave the version byte and the first 24 bytes of the nonce in its buffer.
\<close>

lemma put_fresh:
  "put (put \<lparr>aead = a, n = 0, p = replicate hdrSize 0\<rparr> [Version]) nonce =
     \<lparr>aead = a, n = 1 + min NonceSize (length nonce),
      p = Version # take NonceSize nonce @ replicate (NonceSize - length nonce) 0\<rparr>"
  by (simp add: put_def go_copy_def hdrSize_def Let_def min_def)

lemma sign_fresh:
  assumes "length nonce = NonceSize"
  shows "sign \<lparr>aead = a, n = 0, p = replicate hdrSize 0\<rparr> msg nonce =
           map_option (\<lambda>sealed. Version # nonce @ sealed) (Seal a nonce msg (Version # nonce))"
  using assms by (simp add: sign_def put_fresh Let_def split: option.split)

text \<open>
  \<^verbatim>\<open>Verify\<close> on a header followed by a body hands the nonce of the header, the body and
  the header to \<open>Open\<close> and returns what \<open>Open\<close> returns.
\<close>

lemma Verify_parts:
  assumes "length nonce = NonceSize"
  shows "Verify s (v # nonce @ body) =
           (case Open (aead s) nonce body (v # nonce) of
              Panic \<Rightarrow> (Panic, s)
            | Fails err \<Rightarrow> (Fails (Foreign err), s)
            | Returns msg \<Rightarrow> (Returns msg, s))"
  using assms by (simp add: Verify_def hdrSize_def Let_def)

lemma contract_Seal:
  assumes "aead_contract a" and "length nonce = NonceSize"
  obtains sealed where "Seal a nonce msg ad = Some sealed"
    and "length sealed = length msg + Overhead"
    and "Open a nonce sealed ad = Returns msg"
  using assms unfolding aead_contract_def by blast

lemma contract_short:
  assumes "aead_contract a" and "length nonce = NonceSize" and "length c < Overhead"
  obtains err where "Open a nonce c ad = Fails err"
  using assms unfolding aead_contract_def by blast

text \<open>
  For an input of at least 25 bytes, \<^verbatim>\<open>Verify\<close> returns what \<open>Open\<close> returns on the
  nonce in the header, the bytes after the header, and the header; the header and the
  bytes after it make up the whole input, so two different inputs never reach \<open>Open\<close>
  with the same associated data and the same sealed bytes.
\<close>

lemma Verify_Open:
  assumes "hdrSize \<le> length c"
  shows "fst (Verify s c) =
           (case Open (aead s) (drop 1 (take hdrSize c)) (drop hdrSize c) (take hdrSize c) of
              Panic \<Rightarrow> Panic
            | Fails err \<Rightarrow> Fails (Foreign err)
            | Returns msg \<Rightarrow> Returns msg)"
  using assms by (simp add: Verify_def Let_def split: outcome.split)

lemma token_parts_inject:
  assumes "take hdrSize c = take hdrSize c'" and "drop hdrSize c = drop hdrSize c'"
  shows "c = c'"
  using assms by (metis append_take_drop_id)

text \<open>
  There are \<open>256 ^ k\<close> byte sequences of length \<open>k\<close>. So among the keys of 32 bytes two
  must seal the empty message to the same 16 bytes (under any one nonce and associated
  data), and each of the two ciphers opens what the other has sealed.
\<close>

lemma finite_bytes_length: "finite {xs :: bytes. length xs = k}"
  using finite_lists_length_eq [of "UNIV :: byte set" k] by simp

lemma card_bytes_length: "card {xs :: bytes. length xs = k} = 256 ^ k"
  using card_lists_length_eq [of "UNIV :: byte set" k] by (simp add: card_word)

lemma two_keys_one_token:
  assumes "NewX_contract NewX" and "length nonce = NonceSize"
  obtains A B a b sealed where "length A = KeySize" and "length B = KeySize" and "A \<noteq> B"
    and "NewX A = Returns a" and "NewX B = Returns b"
    and "Seal a nonce [] ad = Some sealed"
    and "Open b nonce sealed ad = Returns []"
proof -
  define cipher where "cipher key = (case NewX key of Returns a \<Rightarrow> a)" for key
  define f where "f key = the (Seal (cipher key) nonce [] ad)" for key
  let ?K = "{key :: bytes. length key = KeySize}"
  let ?T = "{c :: bytes. length c = Overhead}"
  have key: "NewX key = Returns (cipher key) \<and> aead_contract (cipher key)"
    if "length key = KeySize" for key
  proof -
    from assms(1) that obtain a where "NewX key = Returns a" and "aead_contract a"
      unfolding NewX_contract_def by metis
    then show ?thesis by (simp add: cipher_def)
  qed
  have seal: "Seal (cipher key) nonce [] ad = Some (f key) \<and> length (f key) = Overhead \<and>
      Open (cipher key) nonce (f key) ad = Returns []"
    if "length key = KeySize" for key
  proof -
    from key [OF that] have "aead_contract (cipher key)" by simp
    from this assms(2) obtain sealed
      where "Seal (cipher key) nonce [] ad = Some sealed"
        and "length sealed = length ([] :: bytes) + Overhead"
        and "Open (cipher key) nonce sealed ad = Returns []"
      by (rule contract_Seal)
    then show ?thesis by (simp add: f_def)
  qed
  have "f ` ?K \<subseteq> ?T"
    using seal by auto
  then have "card (f ` ?K) \<le> card ?T"
    by (rule card_mono [OF finite_bytes_length])
  also have "\<dots> < card ?K"
  proof -
    have "(256::nat) ^ Overhead < 256 ^ KeySize"
      by (rule power_strict_increasing) (simp_all add: Overhead_def KeySize_def)
    then show ?thesis
      by (simp only: card_bytes_length)
  qed
  finally have "\<not> inj_on f ?K"
    by (rule pigeonhole)
  then obtain A B where AB: "length A = KeySize" "length B = KeySize" "A \<noteq> B" "f A = f B"
    unfolding inj_on_def by auto
  show thesis
  proof (rule that [of A B "cipher A" "cipher B" "f A"])
    show "length A = KeySize" "length B = KeySize" "A \<noteq> B" by (fact AB)+
    show "NewX A = Returns (cipher A)" using key [OF AB(1)] by simp
    show "NewX B = Returns (cipher B)" using key [OF AB(2)] by simp
    show "Seal (cipher A) nonce [] ad = Some (f A)" using seal [OF AB(1)] by simp
    show "Open (cipher B) nonce (f A) ad = Returns []" using seal [OF AB(2)] AB(4) by simp
  qed
qed

subsection \<open>The claims\<close>

text \<open>
  C1. Round trip: for every key of 32 bytes, every message (the empty one too) and every
  nonce of 24 bytes, \<^verbatim>\<open>New\<close> returns a Signer, \<^verbatim>\<open>Sign\<close> with that nonce returns a
  token, and \<^verbatim>\<open>Verify\<close> on that token returns exactly the message. The cipher is any
  one that meets the contract.
\<close>

theorem Verify_Sign:
  assumes "NewX_contract NewX" and "length key = 32" and "length nonce = 24"
  shows "\<exists>s tok. New NewX key = Returns s \<and>
                  Sign Read s msg (Some nonce) = (Returns tok, s) \<and>
                  Verify s tok = (Returns msg, s)"
proof -
  from assms(1,2) obtain a
    where new: "New NewX key = Returns \<lparr>aead = a, n = 0, p = replicate hdrSize 0\<rparr>"
      and a: "aead_contract a"
    by (auto simp: KeySize_def elim: New_Returns)
  have len: "length nonce = NonceSize"
    using assms(3) by (simp add: NonceSize_def)
  from a len obtain sealed
    where seal: "Seal a nonce msg (Version # nonce) = Some sealed"
      and opn: "Open a nonce sealed (Version # nonce) = Returns msg"
    by (rule contract_Seal)
  let ?s = "\<lparr>aead = a, n = 0, p = replicate hdrSize 0\<rparr>"
  have "Sign Read ?s msg (Some nonce) = (Returns (Version # nonce @ sealed), ?s)"
    using seal by (simp add: Sign_def sign_fresh [OF len])
  moreover have "Verify ?s (Version # nonce @ sealed) = (Returns msg, ?s)"
    using opn by (simp add: Verify_parts [OF len])
  ultimately show ?thesis
    using new by blast
qed

theorem Verify_Sign_witness:
  "NewX_contract fake_NewX \<and>
   (\<exists>s tok. New fake_NewX (replicate 32 0) = Returns s \<and>
            Sign fake_Read s [0x68, 0x65, 0x6c, 0x6c, 0x6f] (Some (replicate 24 0)) = (Returns tok, s) \<and>
            Verify s tok = (Returns [0x68, 0x65, 0x6c, 0x6c, 0x6f], s))"
  using Verify_Sign [OF fake_NewX_contract, where key = "replicate 32 0"
      and nonce = "replicate 24 0" and Read = fake_Read and msg = "[0x68, 0x65, 0x6c, 0x6c, 0x6f]"]
  by (simp add: fake_NewX_contract)

text \<open>
  C3. Wire format: for every message and every nonce of 24 bytes, the token that
  \<^verbatim>\<open>Sign\<close> returns has 25 + len(message) + 16 bytes, its byte 0 is the version tag
  \<^verbatim>\<open>'A'\<close> (0x41), and its bytes 1 to 24 are the nonce.
\<close>

theorem Sign_wire_format:
  assumes "NewX_contract NewX" and "length key = 32" and "length nonce = 24"
  shows "\<exists>s tok. New NewX key = Returns s \<and>
                  fst (Sign Read s msg (Some nonce)) = Returns tok \<and>
                  length tok = 25 + length msg + 16 \<and>
                  tok ! 0 = 0x41 \<and>
                  take 24 (drop 1 tok) = nonce"
proof -
  from assms(1,2) obtain a
    where new: "New NewX key = Returns \<lparr>aead = a, n = 0, p = replicate hdrSize 0\<rparr>"
      and a: "aead_contract a"
    by (auto simp: KeySize_def elim: New_Returns)
  have len: "length nonce = NonceSize"
    using assms(3) by (simp add: NonceSize_def)
  from a len obtain sealed
    where seal: "Seal a nonce msg (Version # nonce) = Some sealed"
      and size: "length sealed = length msg + Overhead"
    by (rule contract_Seal)
  let ?s = "\<lparr>aead = a, n = 0, p = replicate hdrSize 0\<rparr>"
  let ?tok = "Version # nonce @ sealed"
  have "fst (Sign Read ?s msg (Some nonce)) = Returns ?tok"
    using seal by (simp add: Sign_def sign_fresh [OF len])
  moreover have "length ?tok = 25 + length msg + 16"
    using size assms(3) by (simp add: Overhead_def)
  moreover have "?tok ! 0 = 0x41"
    by (simp add: Version_def)
  moreover have "take 24 (drop 1 ?tok) = nonce"
    using assms(3) by simp
  ultimately show ?thesis
    using new by blast
qed

theorem Sign_wire_format_witness:
  "NewX_contract fake_NewX \<and>
   (\<exists>s tok. New fake_NewX (replicate 32 0) = Returns s \<and>
            fst (Sign fake_Read s [0x68, 0x65, 0x6c, 0x6c, 0x6f] (Some (replicate 24 0))) = Returns tok \<and>
            length tok = 46 \<and> tok ! 0 = 0x41 \<and> take 24 (drop 1 tok) = replicate 24 0)"
  using Sign_wire_format [OF fake_NewX_contract, where key = "replicate 32 0"
      and nonce = "replicate 24 0" and Read = fake_Read and msg = "[0x68, 0x65, 0x6c, 0x6c, 0x6f]"]
  by (simp add: fake_NewX_contract)

text \<open>
  C4. Determinism under an explicit nonce: two calls of \<^verbatim>\<open>Sign\<close> on the same Signer,
  one after the other, with the same message and the same supplied nonce give the same
  result, whatever the random reader would deliver at either call.
\<close>

theorem Sign_deterministic:
  "fst (Sign Read2 (snd (Sign Read1 s msg (Some nonce))) msg (Some nonce)) =
   fst (Sign Read1 s msg (Some nonce))"
  by (simp add: Sign_def split: option.split)

text \<open>
  C5. Key length: the claim is that \<^verbatim>\<open>New\<close> fails with the package's key-length
  error exactly for keys that do not have 32 bytes. The code does not: \<^verbatim>\<open>New\<close> hands
  on whatever error \<^verbatim>\<open>chacha20poly1305.NewX\<close> returned, so it never fails with the
  value \<^verbatim>\<open>ErrKeyLen\<close> that the package declares, for no key and no constructor; when
  the constructor answers a key with an error of message \<open>m\<close>, \<^verbatim>\<open>New\<close> returns that
  foreign error.
\<close>

theorem New_not_ErrKeyLen:
  "New NewX key \<noteq> Fails ErrKeyLen \<and>
   New (NewX(key := Fails m)) key = Fails (Foreign m)"
  by (simp add: New_def split: outcome.split)

text \<open>
  Whether \<^verbatim>\<open>New\<close> fails at all is decided by the constructor alone: under its
  contract \<^verbatim>\<open>New\<close> fails exactly when the key does not have 32 bytes and returns a
  Signer exactly when it has 32.
\<close>

lemma New_key_length:
  assumes "NewX_contract NewX"
  shows "((\<exists>err. New NewX key = Fails err) = (length key \<noteq> 32)) \<and>
         ((\<exists>s. New NewX key = Returns s) = (length key = 32))"
proof (cases "length key = KeySize")
  case True
  with assms obtain a where "NewX key = Returns a"
    unfolding NewX_contract_def by metis
  then show ?thesis
    using True by (simp add: New_def KeySize_def)
next
  case False
  with assms obtain m where "NewX key = Fails m"
    unfolding NewX_contract_def by metis
  then show ?thesis
    using False by (simp add: New_def KeySize_def)
qed

text \<open>
  C6. \<^verbatim>\<open>Verify\<close> fails with \<^verbatim>\<open>ErrShort\<close> exactly when the input has fewer than
  25 bytes, and for such an input the result is \<^verbatim>\<open>ErrShort\<close> whatever the cipher of
  the Signer is (also one whose \<open>Open\<close> panics on every call), so \<open>Open\<close> is not
  called. An error of the cipher is never the value \<^verbatim>\<open>ErrShort\<close> of the package.
\<close>

theorem Verify_short:
  "(fst (Verify s c) = Fails ErrShort) = (length c < 25) \<and>
   (length c < 25) = (\<forall>a. Verify (s\<lparr>aead := a\<rparr>) c = (Fails ErrShort, s\<lparr>aead := a\<rparr>))"
proof -
  have short: "Verify t c = (Fails ErrShort, t)" if "length c < 25" for t
    using that by (simp add: Verify_def hdrSize_25)
  have long: "fst (Verify t c) \<noteq> Fails ErrShort" if "\<not> length c < 25" for t
    using that by (simp add: Verify_def hdrSize_25 Let_def split: outcome.split)
  have "(fst (Verify s c) = Fails ErrShort) = (length c < 25)"
    using short [of s] long [of s] by (cases "length c < 25") simp_all
  moreover have "(length c < 25) = (\<forall>a. Verify (s\<lparr>aead := a\<rparr>) c = (Fails ErrShort, s\<lparr>aead := a\<rparr>))"
  proof (cases "length c < 25")
    case True
    then show ?thesis using short by simp
  next
    case False
    have "fst (Verify (s\<lparr>aead := aead s\<rparr>) c) \<noteq> Fails ErrShort"
      using long [OF False] .
    then have "Verify (s\<lparr>aead := aead s\<rparr>) c \<noteq> (Fails ErrShort, s\<lparr>aead := aead s\<rparr>)"
      by (metis fst_conv)
    with False show ?thesis by blast
  qed
  ultimately show ?thesis by simp
qed

text \<open>
  C8. Frame: \<^verbatim>\<open>Sign\<close> (with or without a nonce) and \<^verbatim>\<open>Verify\<close> leave the Signer
  they are called on as it was, in all of its fields, although \<^verbatim>\<open>put\<close> does write
  to the Signer it is given: in \<^verbatim>\<open>sign\<close> that is the callee's copy.
\<close>

theorem Sign_Verify_frame:
  "snd (Sign Read s msg nonce) = s \<and> snd (Verify s c) = s \<and>
   n (put (put \<lparr>aead = a, n = 0, p = replicate hdrSize 0\<rparr> [Version]) q) =
     1 + min 24 (length q)"
proof -
  have "snd (Sign Read s msg nonce) = s"
    by (simp add: Sign_def split: option.split prod.split)
  moreover have "snd (Verify s c) = s"
    by (simp add: Verify_def Let_def split: outcome.split)
  moreover have "n (put (put \<lparr>aead = a, n = 0, p = replicate hdrSize 0\<rparr> [Version]) q) =
      1 + min 24 (length q)"
    by (simp add: put_fresh NonceSize_def)
  ultimately show ?thesis by simp
qed

text \<open>
  C9. With a supplied nonce of 24 bytes \<^verbatim>\<open>Sign\<close> returns a token and no error, for
  every message. With any supplied nonce \<^verbatim>\<open>Sign\<close> never returns an error, and when
  \<^verbatim>\<open>Sign\<close> returns an error, no nonce was supplied and the error is the one of the
  random reader.
\<close>

theorem Sign_supplied_nonce:
  assumes "NewX_contract NewX" and "length key = 32" and "length nonce = 24"
  shows "\<exists>s. New NewX key = Returns s \<and>
             (\<forall>Read msg. \<exists>tok. Sign Read s msg (Some nonce) = (Returns tok, s)) \<and>
             (\<forall>Read msg q err. fst (Sign Read s msg (Some q)) \<noteq> Fails err) \<and>
             (\<forall>Read msg nonce' err. fst (Sign Read s msg nonce') = Fails err \<longrightarrow>
                nonce' = None \<and> (\<exists>m. snd (mknonce Read) = Some m \<and> err = Foreign m))"
proof -
  from assms(1,2) obtain a
    where new: "New NewX key = Returns \<lparr>aead = a, n = 0, p = replicate hdrSize 0\<rparr>"
      and a: "aead_contract a"
    by (auto simp: KeySize_def elim: New_Returns)
  have len: "length nonce = NonceSize"
    using assms(3) by (simp add: NonceSize_def)
  let ?s = "\<lparr>aead = a, n = 0, p = replicate hdrSize 0\<rparr>"
  have "\<exists>tok. Sign Read ?s msg (Some nonce) = (Returns tok, ?s)" for Read msg
  proof -
    from a len obtain sealed where "Seal a nonce msg (Version # nonce) = Some sealed"
      by (rule contract_Seal)
    then show ?thesis
      by (simp add: Sign_def sign_fresh [OF len])
  qed
  moreover have "fst (Sign Read ?s msg (Some q)) \<noteq> Fails err" for Read msg q err
    by (simp add: Sign_def split: option.split)
  moreover have "nonce' = None \<and> (\<exists>m. snd (mknonce Read) = Some m \<and> err = Foreign m)"
    if "fst (Sign Read ?s msg nonce') = Fails err" for Read msg nonce' err
    using that by (auto simp: Sign_def split: option.splits prod.splits)
  ultimately show ?thesis
    using new by blast
qed

theorem Sign_supplied_nonce_witness:
  "NewX_contract fake_NewX \<and>
   (\<exists>s. New fake_NewX (replicate 32 0) = Returns s \<and>
        (\<exists>tok. Sign fake_Read s [] (Some (replicate 24 1)) = (Returns tok, s)))"
  using Sign_supplied_nonce [OF fake_NewX_contract, of "replicate 32 0" "replicate 24 1"]
  by (simp add: fake_NewX_contract) blast

text \<open>
  C10. An input of at least 25 and fewer than 41 bytes passes the length check of
  \<^verbatim>\<open>Verify\<close>, which covers the header only: the result is not \<^verbatim>\<open>ErrShort\<close>.
  \<^verbatim>\<open>Verify\<close> calls \<open>Open\<close> on the fewer than 16 bytes after the header, and fails
  with the error that \<open>Open\<close> returns.
\<close>

theorem Verify_no_room_for_tag:
  assumes "NewX_contract NewX" and "length key = 32"
    and "25 \<le> length c" and "length c < 41"
  shows "\<exists>s err. New NewX key = Returns s \<and>
           fst (Verify s c) \<noteq> Fails ErrShort \<and>
           Open (aead s) (drop 1 (take 25 c)) (drop 25 c) (take 25 c) = Fails err \<and>
           Verify s c = (Fails (Foreign err), s)"
proof -
  from assms(1,2) obtain a
    where new: "New NewX key = Returns \<lparr>aead = a, n = 0, p = replicate hdrSize 0\<rparr>"
      and a: "aead_contract a"
    by (auto simp: KeySize_def elim: New_Returns)
  let ?s = "\<lparr>aead = a, n = 0, p = replicate hdrSize 0\<rparr>"
  have nonce: "length (drop 1 (take 25 c)) = NonceSize"
    using assms(3) by (simp add: NonceSize_def)
  have body: "length (drop 25 c) < Overhead"
    using assms(4) by (simp add: Overhead_def)
  obtain err
    where opn: "Open a (drop 1 (take 25 c)) (drop 25 c) (take 25 c) = Fails err"
    using contract_short [OF a nonce body] by blast
  then have "Verify ?s c = (Fails (Foreign err), ?s)"
    using assms(3) by (simp add: Verify_def hdrSize_25 Let_def)
  then show ?thesis
    using new opn by auto
qed

theorem Verify_no_room_for_tag_witness:
  "NewX_contract fake_NewX \<and>
   (\<exists>s err. New fake_NewX (replicate 32 0) = Returns s \<and>
      fst (Verify s (replicate 40 0)) \<noteq> Fails ErrShort \<and>
      Verify s (replicate 40 0) = (Fails (Foreign err), s))"
  using Verify_no_room_for_tag [OF fake_NewX_contract, of "replicate 32 0" "replicate 40 0"]
  by (simp add: fake_NewX_contract) blast

end
